theory Spec2Isabelle
  imports Main "HOL-Library.Sublist"
begin

section \<open>JavaScript values\<close>

text \<open>
  The worker decodes each queue message with \<^verbatim>\<open>JSON.parse\<close> and destructures four
  fields. A field is a scalar JSON value or is missing (\<open>Undefined\<close>). \<open>Num n\<close> is the
  number that the integer literal \<open>n\<close> decodes to. Strings are lists of code units in the
  range U+0000 to U+00FF, one \<open>char\<close> each.
\<close>

datatype jsval = Undefined | Null | Num int | Str string

subsection \<open>Numbers as strings\<close>

text \<open>Decimal digits of a non-negative integer, most significant first.\<close>

function digits :: "int \<Rightarrow> string" where
  "digits n =
     (if n < 10 then [char_of (48 + n)]
      else digits (n div 10) @ [char_of (48 + n mod 10)])"
  by pat_completeness auto
termination
  by (relation "measure nat") auto

declare digits.simps [simp del]

text \<open>The number of binary digits of a positive integer.\<close>

function bitlen :: "int \<Rightarrow> nat" where
  "bitlen n = (if n \<le> 0 then 0 else Suc (bitlen (n div 2)))"
  by pat_completeness auto
termination
  by (relation "measure nat") auto

declare bitlen.simps [simp del]

text \<open>
  The value of the number that \<^verbatim>\<open>JSON.parse\<close> makes of an integer literal of magnitude
  \<open>m\<close>: the nearest double, a tie going to the even significand of 53 bits; \<open>None\<close> is
  \<^verbatim>\<open>Infinity\<close>. Below \<open>2 ^ 53\<close> every integer is a double.
\<close>

definition Number_value :: "int \<Rightarrow> int option" where
  "Number_value m =
     (if m < 2 ^ 53 then Some m
      else let e = bitlen m - 53; q = m div 2 ^ e; r = m mod 2 ^ e;
               q' = (if 2 ^ e < 2 * r \<or> (2 * r = 2 ^ e \<and> odd q) then q + 1 else q)
           in if q' * 2 ^ e < 2 ^ 1024 then Some (q' * 2 ^ e) else None)"

text \<open>
  The digits \<open>s\<close> that \<^verbatim>\<open>Number::toString\<close> chooses for a double \<open>v\<close> of \<open>n\<close> decimal
  digits that no power of ten reads back as: as few digits as possible such that \<open>s\<close>
  followed by zeros reads back as \<open>v\<close>; of two candidates the one nearer to \<open>v\<close>, and the
  even one when they are equally near. The second argument is the number of zeros tried,
  from \<open>n - 1\<close> downwards.
\<close>

fun shortest :: "int \<Rightarrow> nat \<Rightarrow> int" where
  "shortest v 0 = v"
| "shortest v (Suc j) =
     (let p = 10 ^ Suc j; lo = v div p; hi = lo + 1;
          lo_ok = (Number_value (lo * p) = Some v);
          hi_ok = (Number_value (hi * p) = Some v)
      in if lo_ok \<and> hi_ok then
           (if v - lo * p < hi * p - v then lo
            else if hi * p - v < v - lo * p then hi
            else if even lo then lo else hi)
         else if lo_ok then lo
         else if hi_ok then hi
         else shortest v j)"

text \<open>
  The layout steps of \<^verbatim>\<open>Number::toString\<close> for the digits \<open>s\<close>, \<open>k\<close> of them, and the
  decimal exponent \<open>n\<close> of the number \<open>s * 10 ^ (n - k)\<close>: for an integer, where \<open>k \<le> n\<close>,
  the digits and then zeros up to 21 places, and exponent form beyond.
\<close>

definition Number_format :: "int \<Rightarrow> nat \<Rightarrow> string" where
  "Number_format s n =
     (let k = length (digits s) in
      if k \<le> n \<and> n \<le> 21 then digits s @ replicate (n - k) CHR ''0''
      else if 0 < n \<and> n \<le> 21 then take n (digits s) @ ''.'' @ drop n (digits s)
      else if n = 0 then ''0.'' @ digits s
      else if k = 1 then digits s @ ''e+'' @ digits (int n - 1)
      else hd (digits s) # ''.'' @ tl (digits s) @ ''e+'' @ digits (int n - 1))"

text \<open>
  \<^verbatim>\<open>Number::toString\<close> of the number that the integer literal \<open>x\<close> decodes to. Below
  \<open>2 ^ 53\<close> the digits are those of the integer. Above, when the power of ten next above
  the double reads back as the double itself (as for \<open>10 ^ 23\<close>), the digits are \<open>1\<close> with
  one more decimal place; otherwise they are the \<open>shortest\<close> ones.
\<close>

definition Number_toString :: "int \<Rightarrow> string" where
  "Number_toString x =
     (if x < 0 then ''-'' else []) @
     (case Number_value \<bar>x\<bar> of
        None \<Rightarrow> ''Infinity''
      | Some v \<Rightarrow>
          if v < 2 ^ 53 then digits v
          else let n = length (digits v) in
            if Number_value (10 ^ n) = Some v then Number_format 1 (n + 1)
            else Number_format (shortest v (n - 1)) n)"

text \<open>The conversion a template literal \<^verbatim>\<open>`${v}`\<close> applies to \<open>v\<close>.\<close>

fun ToString :: "jsval \<Rightarrow> string" where
  "ToString Undefined = ''undefined''"
| "ToString Null = ''null''"
| "ToString (Num n) = Number_toString n"
| "ToString (Str s) = s"

fun truthy :: "jsval \<Rightarrow> bool" where
  "truthy Undefined = False"
| "truthy Null = False"
| "truthy (Num n) = (n \<noteq> 0)"
| "truthy (Str s) = (s \<noteq> [])"

text \<open>The operator \<^verbatim>\<open>a || b\<close>.\<close>

definition js_or :: "jsval \<Rightarrow> jsval \<Rightarrow> jsval" where
  "js_or a b = (if truthy a then a else b)"

subsection \<open>Error objects\<close>

text \<open>
  An error object: its name, its message and, when it has one, its numeric \<^verbatim>\<open>code\<close> (the
  status code of a cluster response).
\<close>

record js_error =
  name :: string
  message :: string
  code :: "int option"

text \<open>\<^verbatim>\<open>new Error\<close>: no message, no code.\<close>

definition new_Error :: js_error where
  "new_Error = \<lparr>name = ''Error'', message = [], code = None\<rparr>"

text \<open>
  A \<^verbatim>\<open>TypeError\<close> raised by the engine. The message texts used below are V8's; no
  theorem depends on them.
\<close>

definition TypeError :: "string \<Rightarrow> js_error" where
  "TypeError m = \<lparr>name = ''TypeError'', message = m, code = None\<rparr>"

text \<open>\<^verbatim>\<open>Error.prototype.toString\<close>, which \<^verbatim>\<open>`${error}`\<close> calls.\<close>

definition Error_toString :: "js_error \<Rightarrow> string" where
  "Error_toString e =
     (if name e = [] then message e
      else if message e = [] then name e
      else name e @ '': '' @ message e)"

section \<open>The sanitising transform\<close>

text \<open>
  \<^verbatim>\<open>const ocsafety = string => string.toLocaleLowerCase().replace(/[^0-9a-z-]/g,'-')\<close>

  \<open>toLocaleLowerCase\<close> on code units up to U+00FF, in a host locale without
  language-specific case mappings: \<open>A\<close> to \<open>Z\<close> and the capital letters U+00C0 to U+00DE
  (U+00D7, the multiplication sign, is not a letter) move up by 32; every other code unit
  stays.
\<close>

definition toLocaleLowerCase_char :: "char \<Rightarrow> char" where
  "toLocaleLowerCase_char c =
     (let n = (of_char c :: nat)
      in if (65 \<le> n \<and> n \<le> 90) \<or> (192 \<le> n \<and> n \<le> 222 \<and> n \<noteq> 215)
         then char_of (n + 32) else c)"

definition toLocaleLowerCase :: "string \<Rightarrow> string" where
  "toLocaleLowerCase s = map toLocaleLowerCase_char s"

text \<open>Membership in the character class \<^verbatim>\<open>[0-9a-z-]\<close>.\<close>

definition in_class :: "char \<Rightarrow> bool" where
  "in_class c =
     (let n = (of_char c :: nat)
      in (48 \<le> n \<and> n \<le> 57) \<or> (97 \<le> n \<and> n \<le> 122) \<or> n = 45)"

text \<open>\<^verbatim>\<open>.replace(/[^0-9a-z-]/g, '-')\<close>: the global flag replaces every match.\<close>

definition replace_unsafe :: "string \<Rightarrow> string" where
  "replace_unsafe s = map (\<lambda>c. if in_class c then c else CHR ''-'') s"

definition ocsafety :: "string \<Rightarrow> string" where
  "ocsafety string = replace_unsafe (toLocaleLowerCase string)"

text \<open>\<^verbatim>\<open>.replace(/\/$/, "")\<close>: one trailing slash, when there is one, is removed.\<close>

definition replace_trailing_slash :: "string \<Rightarrow> string" where
  "replace_trailing_slash s =
     (if s \<noteq> [] \<and> last s = CHR ''/'' then butlast s else s)"

subsection \<open>The transform as the specification words it\<close>



section \<open>Messages, collaborators and effects\<close>

text \<open>The four fields read from the decoded message.\<close>

record task =
  projectName :: string
  branch :: jsval
  pullrequestNumber :: jsval
  type :: jsval

text \<open>
  What \<^verbatim>\<open>getOpenShiftInfoForProject\<close> resolves to: \<open>None\<close> when \<^verbatim>\<open>result.project\<close> is
  null, otherwise the two fields of \<^verbatim>\<open>project.openshift\<close> that the worker reads: the
  console URL, a string, and the token (\<open>None\<close> for a null token).
\<close>

record openshift_info =
  console_url :: string
  token :: "string option"

text \<open>The configuration of the \<^verbatim>\<open>OpenShiftClient.OApi\<close> object.\<close>

record oapi =
  url :: string
  bearer :: string

text \<open>
  The external collaborators, as the answers they give. A promise that rejects is
  \<open>Inl err\<close> or \<open>Some err\<close>; one that resolves is \<open>Inr v\<close> or \<open>None\<close>. The cluster calls
  receive \<^verbatim>\<open>openshiftProject\<close>, which may be undefined, hence a \<open>jsval\<close>.
\<close>

record world =
  getOpenShiftInfoForProject :: "string \<Rightarrow> js_error + openshift_info option"
  projectsGet :: "oapi \<Rightarrow> jsval \<Rightarrow> js_error option"
  projectsDelete :: "oapi \<Rightarrow> jsval \<Rightarrow> js_error option"
  deleteEnvironment :: "jsval \<Rightarrow> string \<Rightarrow> js_error option"

text \<open>
  The arguments of \<^verbatim>\<open>sendToLagoonLogs(severity, project, uuid, event, meta, message)\<close>.
\<close>

record lagoon_log =
  severity :: string
  project :: string
  uuid :: string
  event :: string
  meta :: "(string \<times> jsval) list"
  summary :: string

text \<open>
  The calls a handler makes on the outside world, in the order it makes them. Calls to
  the local \<^verbatim>\<open>logger\<close> are not recorded.
\<close>

datatype effect =
    Call_getOpenShiftInfoForProject string
  | Call_projectsGet oapi jsval
  | Call_projectsDelete oapi jsval
  | Call_deleteEnvironment jsval string
  | Call_sendToLagoonLogs lagoon_log

section \<open>messageConsumer\<close>

text \<open>
  Lines 29 to 53: the \<^verbatim>\<open>try\<close> block that derives the client configuration,
  \<^verbatim>\<open>openshiftProject\<close> and \<^verbatim>\<open>environmentName\<close>. Its \<^verbatim>\<open>catch\<close> rethrows the error it
  caught. The \<^verbatim>\<open>switch\<close> has no default case: for any other \<^verbatim>\<open>type\<close> both variables keep
  the value \<^verbatim>\<open>undefined\<close> of their declaration.
\<close>

definition messageConsumer_names ::
  "openshift_info option \<Rightarrow> task \<Rightarrow> js_error + (oapi \<times> jsval \<times> jsval)" where
  "messageConsumer_names projectOpenShift msg =
     (let safeProjectName = ocsafety (projectName msg) in
      case projectOpenShift of
        None \<Rightarrow> Inl (TypeError ''Cannot read property 'openshift' of null'')
      | Some os \<Rightarrow>
          let openshiftConsole = replace_trailing_slash (console_url os);
              openshiftToken = (case token os of None \<Rightarrow> [] | Some t \<Rightarrow> t);
              openshift = \<lparr>url = openshiftConsole, bearer = openshiftToken\<rparr>
          in if type msg = Str ''pullrequest'' then
               Inr (openshift,
                    Str (safeProjectName @ ''-pr-'' @ ToString (pullrequestNumber msg)),
                    Str (''pr-'' @ ToString (pullrequestNumber msg)))
             else if type msg = Str ''branch'' then
               (case branch msg of
                  Str b \<Rightarrow>
                    let safeBranchName = ocsafety b
                    in Inr (openshift, Str (safeProjectName @ ''-'' @ safeBranchName), branch msg)
                | Num n \<Rightarrow> Inl (TypeError ''string.toLocaleLowerCase is not a function'')
                | v \<Rightarrow> Inl (TypeError (''Cannot read property 'toLocaleLowerCase' of '' @ ToString v)))
             else Inr (openshift, Undefined, Undefined))"

text \<open>The success event of lines 75 and 89.\<close>

definition finished_log :: "string \<Rightarrow> jsval \<Rightarrow> lagoon_log" where
  "finished_log pn openshiftProject =
     \<lparr>severity = ''success'', project = pn, uuid = [],
      event = ''task:remove-openshift:finished'', meta = [],
      summary = ''*['' @ pn @ '']* remove `'' @ ToString openshiftProject @ ''`''\<rparr>"

text \<open>
  The handler, on a decoded message whose \<^verbatim>\<open>projectName\<close> is a string: the calls it makes,
  and how its promise settles (\<open>Inr ()\<close> resolved, \<open>Inl error\<close> rejected with \<open>error\<close>).
  The project lookup of line 26 is awaited outside every \<^verbatim>\<open>try\<close>, so its rejection is the
  handler's. \<^verbatim>\<open>sendToLagoonLogs\<close> is not awaited and is taken not to throw.
\<close>

definition messageConsumer :: "world \<Rightarrow> task \<Rightarrow> effect list \<times> (js_error + unit)" where
  "messageConsumer w msg =
     (let c0 = [Call_getOpenShiftInfoForProject (projectName msg)] in
      case getOpenShiftInfoForProject w (projectName msg) of
        Inl err \<Rightarrow> (c0, Inl err)
      | Inr projectOpenShift \<Rightarrow>
     (case messageConsumer_names projectOpenShift msg of
        Inl error \<Rightarrow> (c0, Inl error)
      | Inr (openshift, openshiftProject, environmentName) \<Rightarrow>
     (let c1 = c0 @ [Call_projectsGet openshift openshiftProject] in
      case projectsGet w openshift openshiftProject of
        Some err \<Rightarrow>
          if code err = Some 404
          then (c1 @ [Call_sendToLagoonLogs (finished_log (projectName msg) openshiftProject)],
                Inr ())
          else (c1, Inl new_Error)
      | None \<Rightarrow>
     (let c2 = c1 @ [Call_projectsDelete openshift openshiftProject] in
      case projectsDelete w openshift openshiftProject of
        Some err \<Rightarrow> (c2, Inl new_Error)
      | None \<Rightarrow>
     (let c3 = c2 @ [Call_sendToLagoonLogs (finished_log (projectName msg) openshiftProject)];
          c4 = c3 @ [Call_deleteEnvironment environmentName (projectName msg)] in
      case deleteEnvironment w environmentName (projectName msg) of
        Some err \<Rightarrow> (c4, Inl new_Error)
      | None \<Rightarrow> (c4, Inr ()))))))"

section \<open>deathHandler\<close>

text \<open>Line 117: the project name the dead-letter handler derives.\<close>

definition deathHandler_openshiftProject :: "task \<Rightarrow> string" where
  "deathHandler_openshiftProject msg =
     ocsafety (projectName msg @ ''-'' @ ToString (js_or (branch msg) (pullrequestNumber msg)))"

definition deathHandler :: "task \<Rightarrow> js_error \<Rightarrow> effect list" where
  "deathHandler msg lastError =
     (let openshiftProject = deathHandler_openshiftProject msg in
      [Call_sendToLagoonLogs
         \<lparr>severity = ''error'', project = projectName msg, uuid = [],
          event = ''task:remove-openshift:error'', meta = [],
          summary = ''*['' @ projectName msg @ '']* remove `'' @ openshiftProject @ ''` ERROR:''
            @ [CHR 0x0A] @ ''```'' @ [CHR 0x0A] @ Error_toString lastError @ [CHR 0x0A] @ ''```''\<rparr>])"

section \<open>Predicates used in the statements\<close>

text \<open>
  The invariant of a task: a branch task has a non-empty branch string, a pull-request
  task has a pull-request number.
\<close>

definition valid_task :: "task \<Rightarrow> bool" where
  "valid_task msg =
     (if type msg = Str ''branch'' then (case branch msg of Str b \<Rightarrow> b \<noteq> [] | _ \<Rightarrow> False)
      else if type msg = Str ''pullrequest''
        then (case pullrequestNumber msg of Num n \<Rightarrow> True | _ \<Rightarrow> False)
      else False)"

text \<open>
  A number whose magnitude, as decoded, is below \<open>10 ^ 21\<close>, where \<^verbatim>\<open>Number::toString\<close>
  changes to exponent form.
\<close>

definition below_1e21 :: "int \<Rightarrow> bool" where
  "below_1e21 x = (case Number_value \<bar>x\<bar> of None \<Rightarrow> False | Some v \<Rightarrow> v < 10 ^ 21)"

fun plain_number :: "jsval \<Rightarrow> bool" where
  "plain_number (Num n) = below_1e21 n"
| "plain_number _ = False"

fun is_success_event :: "effect \<Rightarrow> bool" where
  "is_success_event (Call_sendToLagoonLogs l) = (severity l = ''success'')"
| "is_success_event _ = False"

fun is_deleteEnvironment :: "effect \<Rightarrow> bool" where
  "is_deleteEnvironment (Call_deleteEnvironment e p) = True"
| "is_deleteEnvironment _ = False"

fun is_projectsDelete :: "effect \<Rightarrow> bool" where
  "is_projectsDelete (Call_projectsDelete c n) = True"
| "is_projectsDelete _ = False"

text \<open>The calls made before the first call of \<open>deleteEnvironment\<close>.\<close>

definition calls_before_deleteEnvironment :: "effect list \<Rightarrow> effect list" where
  "calls_before_deleteEnvironment cs = takeWhile (\<lambda>c. \<not> is_deleteEnvironment c) cs"

section \<open>Scenarios\<close>

text \<open>The two tasks of the specification's scenarios, and variants of them.\<close>

definition task_feature_X :: task where
  "task_feature_X =
     \<lparr>projectName = ''My_Project'', branch = Str ''feature/X'',
      pullrequestNumber = Undefined, type = Str ''branch''\<rparr>"

definition task_acme_42 :: task where
  "task_acme_42 =
     \<lparr>projectName = ''acme'', branch = Undefined,
      pullrequestNumber = Num 42, type = Str ''pullrequest''\<rparr>"

definition task_My_Project_42 :: task where
  "task_My_Project_42 =
     \<lparr>projectName = ''My_Project'', branch = Undefined,
      pullrequestNumber = Num 42, type = Str ''pullrequest''\<rparr>"

definition task_acme_1e21 :: task where
  "task_acme_1e21 =
     \<lparr>projectName = ''acme'', branch = Undefined,
      pullrequestNumber = Num 1000000000000000000000, type = Str ''pullrequest''\<rparr>"

definition task_no_type :: task where
  "task_no_type =
     \<lparr>projectName = ''acme'', branch = Str ''main'',
      pullrequestNumber = Undefined, type = Undefined\<rparr>"

definition task_unknown_type :: task where
  "task_unknown_type =
     \<lparr>projectName = ''acme'', branch = Str ''main'',
      pullrequestNumber = Undefined, type = Str ''promote''\<rparr>"

definition info_example :: openshift_info where
  "info_example = \<lparr>console_url = ''https://console.example.com:8443/'', token = Some ''s3cret''\<rparr>"

definition oapi_example :: oapi where
  "oapi_example = \<lparr>url = ''https://console.example.com:8443'', bearer = ''s3cret''\<rparr>"

text \<open>
  A world in which the project lookup resolves to \<open>info_example\<close> and the three later
  calls settle as given, whatever their arguments.
\<close>

definition world_of :: "js_error option \<Rightarrow> js_error option \<Rightarrow> js_error option \<Rightarrow> world" where
  "world_of get del reg =
     \<lparr>getOpenShiftInfoForProject = (\<lambda>p. Inr (Some info_example)),
      projectsGet = (\<lambda>c n. get),
      projectsDelete = (\<lambda>c n. del),
      deleteEnvironment = (\<lambda>e p. reg)\<rparr>"

definition not_found :: js_error where
  "not_found = \<lparr>name = ''Error'', message = ''projects not found'', code = Some 404\<rparr>"

definition forbidden :: js_error where
  "forbidden = \<lparr>name = ''Error'', message = ''Forbidden'', code = Some 403\<rparr>"

definition api_down :: js_error where
  "api_down = \<lparr>name = ''Error'', message = ''connect ECONNREFUSED'', code = None\<rparr>"

section \<open>Properties of ocsafety\<close>

lemma in_class_replaced: "in_class (if in_class c then c else CHR ''-'')"
  by (simp add: in_class_def)

lemma toLocaleLowerCase_char_in_class: "in_class c \<Longrightarrow> toLocaleLowerCase_char c = c"
  by (auto simp add: in_class_def toLocaleLowerCase_char_def Let_def)

lemma ocsafety_in_class: "list_all in_class (ocsafety s)"
  by (induction s)
     (simp_all add: ocsafety_def replace_unsafe_def toLocaleLowerCase_def in_class_replaced
        split del: if_split)

lemma ocsafety_fixed: "list_all in_class s \<Longrightarrow> ocsafety s = s"
  by (induction s)
     (simp_all add: ocsafety_def replace_unsafe_def toLocaleLowerCase_def
        toLocaleLowerCase_char_in_class)

lemma ocsafety_append: "ocsafety (s @ t) = ocsafety s @ ocsafety t"
  by (simp add: ocsafety_def replace_unsafe_def toLocaleLowerCase_def)



text \<open>
  C10. The sanitising transform is idempotent, and it leaves unchanged every string that
  consists only of lowercase ASCII letters, digits and hyphens.
\<close>

theorem ocsafety_idempotent:
  "ocsafety (ocsafety s) = ocsafety s \<and> (list_all in_class s \<longrightarrow> ocsafety s = s)"
  using ocsafety_fixed ocsafety_in_class by blast

theorem ocsafety_idempotent_witness:
  "list_all in_class ''my-project-42''
   \<and> ocsafety ''my-project-42'' = ''my-project-42''
   \<and> ocsafety (ocsafety ''My_Project/X'') = ocsafety ''My_Project/X''"
  using ocsafety_idempotent [of "''my-project-42''"] ocsafety_idempotent [of "''My_Project/X''"]
  by (simp add: in_class_def)

section \<open>Numbers as strings\<close>

lemma digit_in_class: "0 \<le> d \<Longrightarrow> d < 10 \<Longrightarrow> in_class (char_of (48 + d :: int))"
proof -
  assume a: "0 \<le> d" "d < 10"
  then have "(of_char (char_of (48 + d :: int)) :: int) = 48 + d"
    by simp
  then have "int (of_char (char_of (48 + d :: int)) :: nat) = 48 + d"
    by (metis of_char_of of_nat_of_char)
  with a show ?thesis
    by (simp add: in_class_def Let_def)
qed

lemma digits_in_class: "0 \<le> n \<Longrightarrow> list_all in_class (digits n)"
proof (induction n rule: digits.induct)
  case (1 n)
  show ?case
  proof (cases "n < 10")
    case True
    with "1.prems" show ?thesis
      by (simp add: digits.simps [of n] digit_in_class)
  next
    case False
    with "1.prems" have "list_all in_class (digits (n div 10))"
      by (intro "1.IH") auto
    moreover have "in_class (char_of (48 + n mod 10))"
      by (rule digit_in_class) auto
    ultimately show ?thesis
      using False by (simp add: digits.simps [of n])
  qed
qed

lemma digits_length_pos: "0 < length (digits n)"
  by (subst digits.simps) simp

lemma digits_length_mono: "a \<le> b \<Longrightarrow> length (digits a) \<le> length (digits b)"
proof (induction b arbitrary: a rule: digits.induct)
  case (1 b)
  show ?case
  proof (cases "a < 10")
    case True
    then have "length (digits a) = 1"
      by (simp add: digits.simps [of a])
    with digits_length_pos [of b] show ?thesis
      by (cases "digits b") simp_all
  next
    case False
    with "1.prems" have b: "\<not> b < 10" by simp
    from "1.prems" have "a div 10 \<le> b div 10"
      by (simp add: zdiv_mono1)
    with b have "length (digits (a div 10)) \<le> length (digits (b div 10))"
      by (intro "1.IH") auto
    with False b show ?thesis
      by (simp add: digits.simps [of a] digits.simps [of b])
  qed
qed

lemma shortest_bounds: "2 \<le> v \<Longrightarrow> 0 \<le> shortest v j \<and> shortest v j \<le> v"
proof (induction j)
  case 0
  then show ?case by simp
next
  case (Suc j)
  have p: "(10::int) \<le> 10 ^ Suc j"
    by simp
  have lo0: "0 \<le> v div 10 ^ Suc j"
    using Suc.prems by (simp add: pos_imp_zdiv_nonneg_iff)
  have "v div 10 ^ Suc j \<le> v div 10"
    using Suc.prems p by (intro zdiv_mono2) auto
  with Suc.prems have hi: "v div 10 ^ Suc j + 1 \<le> v"
    by linarith
  from Suc lo0 hi show ?case
    by (auto simp add: Let_def simp del: power_Suc)
qed

lemma Number_value_nonneg: "0 \<le> m \<Longrightarrow> Number_value m = Some v \<Longrightarrow> 0 \<le> v"
  by (auto simp add: Number_value_def Let_def pos_imp_zdiv_nonneg_iff split: if_splits)

lemma digits_21: "length (digits 999999999999999999999) = 21"
  by code_simp

lemma Number_value_1e21: "Number_value (10 ^ 21) = Some (10 ^ 21)"
  by code_simp

lemma digits_1: "digits 1 = ''1''"
  by code_simp

lemma zeros_in_class: "list_all in_class (replicate k CHR ''0'')"
  by (induction k) (simp_all add: in_class_def)

lemma Number_toString_in_class:
  assumes "below_1e21 x"
  shows "list_all in_class (Number_toString x)"
proof -
  from assms obtain v where v: "Number_value \<bar>x\<bar> = Some v" and small: "v < 10 ^ 21"
    by (auto simp add: below_1e21_def split: option.splits)
  from v have v0: "0 \<le> v"
    using Number_value_nonneg [of "\<bar>x\<bar>" v] by simp
  have sign: "list_all in_class (if x < 0 then ''-'' else [])"
    by (simp add: in_class_def)
  have body: "list_all in_class
     (if v < 2 ^ 53 then digits v
      else let n = length (digits v) in
        if Number_value (10 ^ n) = Some v then Number_format 1 (n + 1)
        else Number_format (shortest v (n - 1)) n)"
  proof (cases "v < 2 ^ 53")
    case True
    from v0 have "list_all in_class (digits v)"
      by (rule digits_in_class)
    with True show ?thesis by simp
  next
    case False
    then have v2: "2 \<le> v" by simp
    from small have "v \<le> 999999999999999999999" by simp
    then have "length (digits v) \<le> length (digits 999999999999999999999)"
      by (rule digits_length_mono)
    then have n21: "length (digits v) \<le> 21"
      by (simp add: digits_21)
    show ?thesis
    proof (cases "Number_value (10 ^ length (digits v)) = Some v")
      case True
      have "length (digits v) \<noteq> 21"
      proof
        assume "length (digits v) = 21"
        with True Number_value_1e21 have "v = 10 ^ 21" by simp
        with small show False by simp
      qed
      with n21 have "length (digits v) + 1 \<le> 21" by simp
      then have "Number_format 1 (length (digits v) + 1) =
                   digits 1 @ replicate (length (digits v)) CHR ''0''"
        by (simp add: Number_format_def digits_1)
      moreover have "list_all in_class (digits 1)"
        by (rule digits_in_class) simp
      ultimately have "list_all in_class (Number_format 1 (length (digits v) + 1))"
        by (simp only: list_all_append zeros_in_class simp_thms)
      with True False show ?thesis
        by (simp only: Let_def if_True if_False simp_thms)
    next
      case no_power: False
      let ?s = "shortest v (length (digits v) - 1)"
      from shortest_bounds [OF v2] have s: "0 \<le> ?s" "?s \<le> v"
        by simp_all
      from s(2) have "length (digits ?s) \<le> length (digits v)"
        by (rule digits_length_mono)
      with n21 have "Number_format ?s (length (digits v)) =
             digits ?s @ replicate (length (digits v) - length (digits ?s)) CHR ''0''"
        by (simp add: Number_format_def Let_def)
      moreover from s(1) have "list_all in_class (digits ?s)"
        by (rule digits_in_class)
      ultimately have "list_all in_class (Number_format ?s (length (digits v)))"
        by (simp only: list_all_append zeros_in_class simp_thms)
      with no_power False show ?thesis
        by (simp only: Let_def if_True if_False simp_thms)
    qed
  qed
  have "Number_toString x =
     (if x < 0 then ''-'' else []) @
     (if v < 2 ^ 53 then digits v
      else let n = length (digits v) in
        if Number_value (10 ^ n) = Some v then Number_format 1 (n + 1)
        else Number_format (shortest v (n - 1)) n)"
    by (simp only: Number_toString_def v option.case)
  with sign body show ?thesis
    by (simp only: list_all_append simp_thms)
qed

section \<open>Name resolution\<close>

lemma names_acme_42:
  "messageConsumer_names (Some info_example) task_acme_42 =
     Inr (oapi_example, Str ''acme-pr-42'', Str ''pr-42'')"
  by code_simp

lemma names_feature_X:
  "messageConsumer_names (Some info_example) task_feature_X =
     Inr (oapi_example, Str ''my-project-feature-x'', Str ''feature/X'')"
  by code_simp

lemma names_My_Project_42:
  "messageConsumer_names (Some info_example) task_My_Project_42 =
     Inr (oapi_example, Str ''my-project-pr-42'', Str ''pr-42'')"
  by code_simp



text \<open>
  C7. For a branch task whose branch is a string, name resolution gives the cluster
  project name \<open>ocsafety projectName\<close>, a hyphen and \<open>ocsafety branch\<close>, while the registry
  environment name is the branch string as it came, also when \<open>ocsafety\<close> changes it.
\<close>

theorem branch_names:
  assumes "type msg = Str ''branch''" and "branch msg = Str b"
  shows "\<exists>openshift. messageConsumer_names (Some os) msg =
           Inr (openshift, Str (ocsafety (projectName msg) @ ''-'' @ ocsafety b), Str b)"
  using assms by (simp add: messageConsumer_names_def Let_def)

theorem branch_names_witness:
  "type task_feature_X = Str ''branch'' \<and> branch task_feature_X = Str ''feature/X''
   \<and> ocsafety ''feature/X'' = ''feature-x'' \<and> ocsafety ''My_Project'' = ''my-project''
   \<and> messageConsumer_names (Some info_example) task_feature_X =
       Inr (oapi_example, Str ''my-project-feature-x'', Str ''feature/X'')"
proof -
  have t: "type task_feature_X = Str ''branch''"
    by (simp add: task_feature_X_def)
  have b: "branch task_feature_X = Str ''feature/X''"
    by (simp add: task_feature_X_def)
  have p: "ocsafety ''My_Project'' = ''my-project''"
    by code_simp
  have f: "ocsafety ''feature/X'' = ''feature-x''"
    by code_simp
  from branch_names [OF t b, of info_example] p f t b names_feature_X show ?thesis
    by simp
qed

text \<open>
  C8, as stated, fails: a pull-request task whose number is \<open>10 ^ 21\<close> is valid, and its
  cluster project name \<open>acme-pr-1e+21\<close> contains a plus sign.
\<close>

theorem openshiftProject_exponent_counterexample:
  "valid_task task_acme_1e21
   \<and> messageConsumer_names (Some info_example) task_acme_1e21 =
       Inr (oapi_example, Str ''acme-pr-1e+21'', Str ''pr-1e+21'')
   \<and> \<not> list_all in_class ''acme-pr-1e+21''"
  by code_simp

text \<open>
  C8, amended. For every valid task that is a branch task, or a pull-request task whose
  number has a magnitude below \<open>10 ^ 21\<close>, the derived cluster project name consists only
  of lowercase letters, digits and hyphens.
\<close>

theorem openshiftProject_in_class:
  assumes "valid_task msg"
    and "type msg = Str ''pullrequest'' \<Longrightarrow> plain_number (pullrequestNumber msg)"
  shows "case messageConsumer_names (Some os) msg of
           Inr (openshift, Str openshiftProject, environmentName) \<Rightarrow>
             list_all in_class openshiftProject
         | _ \<Rightarrow> False"
proof (cases "type msg = Str ''branch''")
  case True
  with assms obtain b where "branch msg = Str b"
    by (auto simp add: valid_task_def split: jsval.splits)
  with True show ?thesis
    by (simp add: messageConsumer_names_def Let_def ocsafety_in_class in_class_def)
next
  case False
  with assms have pr: "type msg = Str ''pullrequest''"
    by (auto simp add: valid_task_def split: if_splits)
  with assms obtain n where n: "pullrequestNumber msg = Num n" and "below_1e21 n"
    by (cases "pullrequestNumber msg") auto
  then have "list_all in_class (Number_toString n)"
    by (simp add: Number_toString_in_class)
  with pr n show ?thesis
    by (simp add: messageConsumer_names_def Let_def ocsafety_in_class in_class_def)
qed

theorem openshiftProject_in_class_witness:
  "valid_task task_feature_X \<and> valid_task task_My_Project_42
   \<and> type task_feature_X \<noteq> Str ''pullrequest''
   \<and> plain_number (pullrequestNumber task_My_Project_42)
   \<and> messageConsumer_names (Some info_example) task_feature_X =
       Inr (oapi_example, Str ''my-project-feature-x'', Str ''feature/X'')
   \<and> list_all in_class ''my-project-feature-x''
   \<and> messageConsumer_names (Some info_example) task_My_Project_42 =
       Inr (oapi_example, Str ''my-project-pr-42'', Str ''pr-42'')
   \<and> list_all in_class ''my-project-pr-42''"
proof -
  have v1: "valid_task task_feature_X"
    by (simp add: valid_task_def task_feature_X_def)
  have t1: "type task_feature_X \<noteq> Str ''pullrequest''"
    by (simp add: task_feature_X_def)
  have v2: "valid_task task_My_Project_42"
    by (simp add: valid_task_def task_My_Project_42_def)
  have n2: "plain_number (pullrequestNumber task_My_Project_42)"
    by code_simp
  from openshiftProject_in_class [OF v1, of info_example]
       openshiftProject_in_class [OF v2, of info_example]
       v1 v2 t1 n2 names_feature_X names_My_Project_42
  show ?thesis by simp
qed

section \<open>The handler's protocol\<close>

lemma info_world_of:
  "getOpenShiftInfoForProject (world_of get del reg) p = Inr (Some info_example)"
  by (simp add: world_of_def)

text \<open>
  Every run makes its calls in one fixed order and stops at the first one that fails:
  the calls made are the exists-check's early return, or an initial segment of the full
  sequence.
\<close>

lemma messageConsumer_calls:
  "(\<exists>openshift openshiftProject.
      fst (messageConsumer w msg) =
        [Call_getOpenShiftInfoForProject (projectName msg),
         Call_projectsGet openshift openshiftProject,
         Call_sendToLagoonLogs (finished_log (projectName msg) openshiftProject)])
   \<or> (\<exists>openshift openshiftProject environmentName.
      prefix (fst (messageConsumer w msg))
        [Call_getOpenShiftInfoForProject (projectName msg),
         Call_projectsGet openshift openshiftProject,
         Call_projectsDelete openshift openshiftProject,
         Call_sendToLagoonLogs (finished_log (projectName msg) openshiftProject),
         Call_deleteEnvironment environmentName (projectName msg)])"
  by (auto simp add: messageConsumer_def Let_def prefix_def
        split: sum.splits option.splits prod.splits)

text \<open>
  Whenever name resolution has succeeded and the exists-check answers with code 404, the
  handler stops after one success event.
\<close>

lemma messageConsumer_not_found:
  assumes "getOpenShiftInfoForProject w (projectName msg) = Inr info"
    and "messageConsumer_names info msg = Inr (openshift, openshiftProject, environmentName)"
    and "projectsGet w openshift openshiftProject = Some err"
    and "code err = Some 404"
  shows "messageConsumer w msg =
           ([Call_getOpenShiftInfoForProject (projectName msg),
             Call_projectsGet openshift openshiftProject,
             Call_sendToLagoonLogs (finished_log (projectName msg) openshiftProject)],
            Inr ())"
  using assms by (simp add: messageConsumer_def Let_def)

text \<open>
  C1 (the code departs from it). The scenario task, its cluster project reported as not
  found: the handler makes the project lookup and the exists-check, emits one success
  event and returns. It makes no delete call and no call of \<open>deleteEnvironment\<close>.
\<close>

theorem not_found_returns_before_deleteEnvironment:
  "messageConsumer (world_of (Some not_found) None None) task_feature_X =
     ([Call_getOpenShiftInfoForProject ''My_Project'',
       Call_projectsGet oapi_example (Str ''my-project-feature-x''),
       Call_sendToLagoonLogs
         \<lparr>severity = ''success'', project = ''My_Project'', uuid = [],
          event = ''task:remove-openshift:finished'', meta = [],
          summary = ''*[My_Project]* remove `my-project-feature-x`''\<rparr>],
      Inr ())
   \<and> \<not> list_ex is_projectsDelete
         (fst (messageConsumer (world_of (Some not_found) None None) task_feature_X))
   \<and> \<not> list_ex is_deleteEnvironment
         (fst (messageConsumer (world_of (Some not_found) None None) task_feature_X))"
  by code_simp

text \<open>
  C2, as stated, fails: with the project present and the delete call successful, the
  success event is emitted before the registry update is attempted, so it is emitted
  also when that update then fails and the handler rejects.
\<close>

theorem success_event_before_deleteEnvironment_counterexample:
  "projectsGet (world_of None None (Some api_down)) oapi_example (Str ''acme-pr-42'') = None
   \<and> projectsDelete (world_of None None (Some api_down)) oapi_example (Str ''acme-pr-42'') = None
   \<and> deleteEnvironment (world_of None None (Some api_down)) (Str ''pr-42'') ''acme'' = Some api_down
   \<and> messageConsumer (world_of None None (Some api_down)) task_acme_42 =
       ([Call_getOpenShiftInfoForProject ''acme'',
         Call_projectsGet oapi_example (Str ''acme-pr-42''),
         Call_projectsDelete oapi_example (Str ''acme-pr-42''),
         Call_sendToLagoonLogs
           \<lparr>severity = ''success'', project = ''acme'', uuid = [],
            event = ''task:remove-openshift:finished'', meta = [],
            summary = ''*[acme]* remove `acme-pr-42`''\<rparr>,
         Call_deleteEnvironment (Str ''pr-42'') ''acme''],
        Inl new_Error)
   \<and> list_ex is_success_event
         (calls_before_deleteEnvironment
            (fst (messageConsumer (world_of None None (Some api_down)) task_acme_42)))"
  by code_simp

text \<open>
  C2, amended. When the project lookup and name resolution succeed, the exists-check
  finds the project and the delete call succeeds, the handler makes exactly these calls
  in this order: project lookup, exists-check, delete, success event, registry update.
  The success event follows the successful delete and precedes the registry update; the
  handler resolves when the registry update succeeds and rejects with a new error when it
  fails.
\<close>

theorem success_event_after_delete:
  assumes "getOpenShiftInfoForProject w (projectName msg) = Inr info"
    and "messageConsumer_names info msg = Inr (openshift, openshiftProject, environmentName)"
    and "projectsGet w openshift openshiftProject = None"
    and "projectsDelete w openshift openshiftProject = None"
  shows "messageConsumer w msg =
           ([Call_getOpenShiftInfoForProject (projectName msg),
             Call_projectsGet openshift openshiftProject,
             Call_projectsDelete openshift openshiftProject,
             Call_sendToLagoonLogs (finished_log (projectName msg) openshiftProject),
             Call_deleteEnvironment environmentName (projectName msg)],
            (case deleteEnvironment w environmentName (projectName msg) of
               None \<Rightarrow> Inr ()
             | Some err \<Rightarrow> Inl new_Error))"
  using assms by (simp add: messageConsumer_def Let_def split: option.splits)

theorem success_event_after_delete_witness:
  "getOpenShiftInfoForProject (world_of None None None) (projectName task_acme_42) =
     Inr (Some info_example)
   \<and> messageConsumer_names (Some info_example) task_acme_42 =
       Inr (oapi_example, Str ''acme-pr-42'', Str ''pr-42'')
   \<and> projectsGet (world_of None None None) oapi_example (Str ''acme-pr-42'') = None
   \<and> projectsDelete (world_of None None None) oapi_example (Str ''acme-pr-42'') = None
   \<and> messageConsumer (world_of None None None) task_acme_42 =
       ([Call_getOpenShiftInfoForProject ''acme'',
         Call_projectsGet oapi_example (Str ''acme-pr-42''),
         Call_projectsDelete oapi_example (Str ''acme-pr-42''),
         Call_sendToLagoonLogs (finished_log ''acme'' (Str ''acme-pr-42'')),
         Call_deleteEnvironment (Str ''pr-42'') ''acme''],
        Inr ())"
proof -
  have i: "getOpenShiftInfoForProject (world_of None None None) (projectName task_acme_42) =
             Inr (Some info_example)"
    by (rule info_world_of)
  have g: "projectsGet (world_of None None None) oapi_example (Str ''acme-pr-42'') = None"
    by (simp add: world_of_def)
  have d: "projectsDelete (world_of None None None) oapi_example (Str ''acme-pr-42'') = None"
    by (simp add: world_of_def)
  have r: "deleteEnvironment (world_of None None None) (Str ''pr-42'') ''acme'' = None"
    by (simp add: world_of_def)
  have p: "projectName task_acme_42 = ''acme''"
    by (simp add: task_acme_42_def)
  from success_event_after_delete [OF i names_acme_42 g d] i g d r p names_acme_42
  show ?thesis by simp
qed

text \<open>
  C3, as stated, fails: for a task without a \<open>type\<close> the handler raises nothing at name
  resolution. It has already made the project lookup, goes on to the exists-check with an
  undefined project name and, when that reports not found, emits a success event and
  resolves.
\<close>

theorem missing_type_not_rejected_counterexample:
  "type task_no_type = Undefined
   \<and> messageConsumer_names (Some info_example) task_no_type =
       Inr (oapi_example, Undefined, Undefined)
   \<and> messageConsumer (world_of (Some not_found) None None) task_no_type =
       ([Call_getOpenShiftInfoForProject ''acme'',
         Call_projectsGet oapi_example Undefined,
         Call_sendToLagoonLogs
           \<lparr>severity = ''success'', project = ''acme'', uuid = [],
            event = ''task:remove-openshift:finished'', meta = [],
            summary = ''*[acme]* remove `undefined`''\<rparr>],
        Inr ())"
  by code_simp

text \<open>
  C3, amended. For every task whose \<open>type\<close> is missing or is neither \<open>branch\<close> nor
  \<open>pullrequest\<close>, once the project lookup has resolved to a project with a console URL,
  name resolution raises no error: the cluster project name and the registry environment
  name both stay undefined, and the handler runs its whole protocol on them. A 404 from
  the exists-check gives one success event and a resolved promise; any other failure of
  the exists-check, of the delete call or of the registry update rejects with the same
  new error as for any other task; with no failure the promise resolves. Nothing in the
  outcome depends on the task's \<open>type\<close>.
\<close>

theorem unrecognised_type_runs_protocol:
  assumes "type msg \<noteq> Str ''pullrequest''" and "type msg \<noteq> Str ''branch''"
    and "getOpenShiftInfoForProject w (projectName msg) = Inr (Some os)"
  shows "(let openshift = \<lparr>url = replace_trailing_slash (console_url os),
                           bearer = (case token os of None \<Rightarrow> [] | Some t \<Rightarrow> t)\<rparr>;
              lookup = Call_getOpenShiftInfoForProject (projectName msg);
              exists = Call_projectsGet openshift Undefined;
              delete = Call_projectsDelete openshift Undefined;
              finished = Call_sendToLagoonLogs (finished_log (projectName msg) Undefined);
              update = Call_deleteEnvironment Undefined (projectName msg)
          in messageConsumer_names (Some os) msg = Inr (openshift, Undefined, Undefined)
             \<and> messageConsumer w msg =
                 (case projectsGet w openshift Undefined of
                    Some err \<Rightarrow>
                      if code err = Some 404 then ([lookup, exists, finished], Inr ())
                      else ([lookup, exists], Inl new_Error)
                  | None \<Rightarrow>
                      (case projectsDelete w openshift Undefined of
                         Some err \<Rightarrow> ([lookup, exists, delete], Inl new_Error)
                       | None \<Rightarrow>
                           ([lookup, exists, delete, finished, update],
                            case deleteEnvironment w Undefined (projectName msg) of
                              None \<Rightarrow> Inr ()
                            | Some err \<Rightarrow> Inl new_Error))))"
  using assms
  by (simp add: messageConsumer_def messageConsumer_names_def Let_def split: option.splits)

theorem unrecognised_type_runs_protocol_witness:
  "type task_unknown_type \<noteq> Str ''pullrequest'' \<and> type task_unknown_type \<noteq> Str ''branch''
   \<and> getOpenShiftInfoForProject (world_of (Some forbidden) None None)
         (projectName task_unknown_type) = Inr (Some info_example)
   \<and> getOpenShiftInfoForProject (world_of None None None)
         (projectName task_unknown_type) = Inr (Some info_example)
   \<and> messageConsumer_names (Some info_example) task_unknown_type =
       Inr (oapi_example, Undefined, Undefined)
   \<and> messageConsumer (world_of (Some forbidden) None None) task_unknown_type =
       ([Call_getOpenShiftInfoForProject ''acme'', Call_projectsGet oapi_example Undefined],
        Inl new_Error)
   \<and> messageConsumer (world_of None None None) task_unknown_type =
       ([Call_getOpenShiftInfoForProject ''acme'',
         Call_projectsGet oapi_example Undefined,
         Call_projectsDelete oapi_example Undefined,
         Call_sendToLagoonLogs (finished_log ''acme'' Undefined),
         Call_deleteEnvironment Undefined ''acme''],
        Inr ())"
proof -
  have t1: "type task_unknown_type \<noteq> Str ''pullrequest''"
    by (simp add: task_unknown_type_def)
  have t2: "type task_unknown_type \<noteq> Str ''branch''"
    by (simp add: task_unknown_type_def)
  have i1: "getOpenShiftInfoForProject (world_of (Some forbidden) None None)
              (projectName task_unknown_type) = Inr (Some info_example)"
    by (rule info_world_of)
  have i2: "getOpenShiftInfoForProject (world_of None None None)
              (projectName task_unknown_type) = Inr (Some info_example)"
    by (rule info_world_of)
  have p: "projectName task_unknown_type = ''acme''"
    by (simp add: task_unknown_type_def)
  have o: "\<lparr>url = replace_trailing_slash (console_url info_example),
            bearer = (case token info_example of None \<Rightarrow> [] | Some t \<Rightarrow> t)\<rparr> = oapi_example"
    by code_simp
  have c: "code forbidden \<noteq> Some 404"
    by (simp add: forbidden_def)
  have a: "messageConsumer_names (Some info_example) task_unknown_type =
             Inr (oapi_example, Undefined, Undefined)
           \<and> messageConsumer (world_of (Some forbidden) None None) task_unknown_type =
               ([Call_getOpenShiftInfoForProject ''acme'',
                 Call_projectsGet oapi_example Undefined],
                Inl new_Error)"
    using unrecognised_type_runs_protocol [OF t1 t2 i1] p o c
    by (simp add: Let_def world_of_def)
  have b: "messageConsumer (world_of None None None) task_unknown_type =
             ([Call_getOpenShiftInfoForProject ''acme'',
               Call_projectsGet oapi_example Undefined,
               Call_projectsDelete oapi_example Undefined,
               Call_sendToLagoonLogs (finished_log ''acme'' Undefined),
               Call_deleteEnvironment Undefined ''acme''],
              Inr ())"
    using unrecognised_type_runs_protocol [OF t1 t2 i2] p o
    by (simp add: Let_def world_of_def)
  from a b t1 t2 i1 i2 show ?thesis by simp
qed

text \<open>
  C4, as stated, fails: when the exists-check finds the project and the delete call then
  fails with code 404, the handler rejects with a new error and emits nothing, whereas a
  404 from the exists-check gives a success event and a resolved promise.
\<close>

theorem delete_not_found_rejected_counterexample:
  "code not_found = Some 404
   \<and> messageConsumer (world_of None (Some not_found) None) task_acme_42 =
       ([Call_getOpenShiftInfoForProject ''acme'',
         Call_projectsGet oapi_example (Str ''acme-pr-42''),
         Call_projectsDelete oapi_example (Str ''acme-pr-42'')],
        Inl new_Error)
   \<and> messageConsumer (world_of (Some not_found) None None) task_acme_42 =
       ([Call_getOpenShiftInfoForProject ''acme'',
         Call_projectsGet oapi_example (Str ''acme-pr-42''),
         Call_sendToLagoonLogs
           \<lparr>severity = ''success'', project = ''acme'', uuid = [],
            event = ''task:remove-openshift:finished'', meta = [],
            summary = ''*[acme]* remove `acme-pr-42`''\<rparr>],
        Inr ())"
  by code_simp

text \<open>
  C4, amended. When the exists-check finds the project and the delete call fails, with
  code 404 or with any other error, the handler stops there: it emits no event, makes no
  registry update and rejects with a new error.
\<close>

theorem delete_failure_rejected:
  assumes "getOpenShiftInfoForProject w (projectName msg) = Inr info"
    and "messageConsumer_names info msg = Inr (openshift, openshiftProject, environmentName)"
    and "projectsGet w openshift openshiftProject = None"
    and "projectsDelete w openshift openshiftProject = Some err"
  shows "messageConsumer w msg =
           ([Call_getOpenShiftInfoForProject (projectName msg),
             Call_projectsGet openshift openshiftProject,
             Call_projectsDelete openshift openshiftProject],
            Inl new_Error)"
  using assms by (simp add: messageConsumer_def Let_def)

theorem delete_failure_rejected_witness:
  "getOpenShiftInfoForProject (world_of None (Some not_found) None) (projectName task_feature_X) =
     Inr (Some info_example)
   \<and> messageConsumer_names (Some info_example) task_feature_X =
       Inr (oapi_example, Str ''my-project-feature-x'', Str ''feature/X'')
   \<and> projectsGet (world_of None (Some not_found) None) oapi_example
         (Str ''my-project-feature-x'') = None
   \<and> projectsDelete (world_of None (Some not_found) None) oapi_example
         (Str ''my-project-feature-x'') = Some not_found
   \<and> messageConsumer (world_of None (Some not_found) None) task_feature_X =
       ([Call_getOpenShiftInfoForProject ''My_Project'',
         Call_projectsGet oapi_example (Str ''my-project-feature-x''),
         Call_projectsDelete oapi_example (Str ''my-project-feature-x'')],
        Inl new_Error)"
proof -
  have i: "getOpenShiftInfoForProject (world_of None (Some not_found) None)
             (projectName task_feature_X) = Inr (Some info_example)"
    by (rule info_world_of)
  have g: "projectsGet (world_of None (Some not_found) None) oapi_example
             (Str ''my-project-feature-x'') = None"
    by (simp add: world_of_def)
  have d: "projectsDelete (world_of None (Some not_found) None) oapi_example
             (Str ''my-project-feature-x'') = Some not_found"
    by (simp add: world_of_def)
  have p: "projectName task_feature_X = ''My_Project''"
    by (simp add: task_feature_X_def)
  from delete_failure_rejected [OF i names_feature_X g d] i g d p names_feature_X
  show ?thesis by simp
qed

lemma ocsafety_hyphen: "ocsafety ''-'' = ''-''"
  by code_simp

lemma deathHandler_openshiftProject_branch:
  assumes "branch msg = Str b" and "b \<noteq> []"
  shows "deathHandler_openshiftProject msg = ocsafety (projectName msg) @ ''-'' @ ocsafety b"
proof -
  have "ocsafety (projectName msg @ ''-'' @ b) =
          ocsafety (projectName msg) @ ocsafety ''-'' @ ocsafety b"
    by (simp only: ocsafety_append)
  with assms show ?thesis
    by (simp add: deathHandler_openshiftProject_def js_or_def ocsafety_hyphen)
qed

text \<open>
  C5, as stated, fails: for the pull-request scenario task the worker derives the cluster
  project name \<open>acme-pr-42\<close>, while the dead-letter handler's event names \<open>acme-42\<close>; and
  the event, whose metadata is empty, carries no attempt count.
\<close>

theorem deathHandler_pullrequest_name_counterexample:
  "messageConsumer_names (Some info_example) task_acme_42 =
     Inr (oapi_example, Str ''acme-pr-42'', Str ''pr-42'')
   \<and> deathHandler_openshiftProject task_acme_42 = ''acme-42''
   \<and> deathHandler task_acme_42 api_down =
       [Call_sendToLagoonLogs
          \<lparr>severity = ''error'', project = ''acme'', uuid = [],
           event = ''task:remove-openshift:error'', meta = [],
           summary = ''*[acme]* remove `acme-42` ERROR:'' @ [CHR 0x0A] @ ''```'' @ [CHR 0x0A]
             @ ''Error: connect ECONNREFUSED'' @ [CHR 0x0A] @ ''```''\<rparr>]"
  by code_simp

text \<open>
  C5, amended. For every branch task with a non-empty branch string, the dead-letter
  handler emits exactly one event, of severity \<open>error\<close>, whose text carries the project
  name, the cluster project name that the worker's name resolution derives for the task,
  and the string form of the last error (its name and, when it has one, its message). The
  event's metadata is empty: no attempt count is carried.
\<close>

theorem deathHandler_branch_event:
  assumes "type msg = Str ''branch''" and "branch msg = Str b" and "b \<noteq> []"
  shows "\<exists>openshift openshiftProject.
           messageConsumer_names (Some os) msg = Inr (openshift, Str openshiftProject, Str b)
           \<and> deathHandler msg lastError =
               [Call_sendToLagoonLogs
                  \<lparr>severity = ''error'', project = projectName msg, uuid = [],
                   event = ''task:remove-openshift:error'', meta = [],
                   summary = ''*['' @ projectName msg @ '']* remove `'' @ openshiftProject
                     @ ''` ERROR:'' @ [CHR 0x0A] @ ''```'' @ [CHR 0x0A]
                     @ Error_toString lastError @ [CHR 0x0A] @ ''```''\<rparr>]"
  using assms
  by (simp add: messageConsumer_names_def deathHandler_def Let_def
        deathHandler_openshiftProject_branch)

theorem deathHandler_branch_event_witness:
  "type task_feature_X = Str ''branch'' \<and> branch task_feature_X = Str ''feature/X''
   \<and> ''feature/X'' \<noteq> []
   \<and> messageConsumer_names (Some info_example) task_feature_X =
       Inr (oapi_example, Str ''my-project-feature-x'', Str ''feature/X'')
   \<and> deathHandler task_feature_X new_Error =
       [Call_sendToLagoonLogs
          \<lparr>severity = ''error'', project = ''My_Project'', uuid = [],
           event = ''task:remove-openshift:error'', meta = [],
           summary = ''*[My_Project]* remove `my-project-feature-x` ERROR:'' @ [CHR 0x0A]
             @ ''```'' @ [CHR 0x0A] @ ''Error'' @ [CHR 0x0A] @ ''```''\<rparr>]"
proof -
  have t: "type task_feature_X = Str ''branch''"
    by (simp add: task_feature_X_def)
  have b: "branch task_feature_X = Str ''feature/X''"
    by (simp add: task_feature_X_def)
  have n: "''feature/X'' \<noteq> []"
    by simp
  have p: "projectName task_feature_X = ''My_Project''"
    by (simp add: task_feature_X_def)
  have e: "Error_toString new_Error = ''Error''"
    by (simp add: Error_toString_def new_Error_def)
  from deathHandler_branch_event [OF t b n, of info_example new_Error] t b p e names_feature_X
  show ?thesis by auto
qed

text \<open>
  C9. When name resolution has succeeded and the exists-check fails with an error whose
  code is not 404, or the delete call fails, or the registry update fails, the handler
  rejects with a new error that has no message, whatever the error of the failed call
  was; its string form is the bare word \<open>Error\<close>.
\<close>

theorem failure_replaced_by_new_Error:
  assumes "getOpenShiftInfoForProject w (projectName msg) = Inr info"
    and "messageConsumer_names info msg = Inr (openshift, openshiftProject, environmentName)"
    and "(\<exists>err. projectsGet w openshift openshiftProject = Some err \<and> code err \<noteq> Some 404)
         \<or> (projectsGet w openshift openshiftProject = None
             \<and> (\<exists>err. projectsDelete w openshift openshiftProject = Some err))
         \<or> (projectsGet w openshift openshiftProject = None
             \<and> projectsDelete w openshift openshiftProject = None
             \<and> (\<exists>err. deleteEnvironment w environmentName (projectName msg) = Some err))"
  shows "snd (messageConsumer w msg) = Inl new_Error
         \<and> message new_Error = [] \<and> Error_toString new_Error = ''Error''"
proof -
  have "snd (messageConsumer w msg) = Inl new_Error"
    using assms by (auto simp add: messageConsumer_def Let_def)
  moreover have "message new_Error = []"
    by (simp add: new_Error_def)
  moreover have "Error_toString new_Error = ''Error''"
    by (simp add: Error_toString_def new_Error_def)
  ultimately show ?thesis by simp
qed

theorem failure_replaced_by_new_Error_witness:
  "projectsGet (world_of (Some forbidden) None None) oapi_example (Str ''acme-pr-42'') =
     Some forbidden
   \<and> code forbidden \<noteq> Some 404 \<and> message forbidden = ''Forbidden''
   \<and> snd (messageConsumer (world_of (Some forbidden) None None) task_acme_42) = Inl new_Error
   \<and> projectsDelete (world_of None (Some forbidden) None) oapi_example (Str ''acme-pr-42'') =
       Some forbidden
   \<and> snd (messageConsumer (world_of None (Some forbidden) None) task_acme_42) = Inl new_Error
   \<and> deleteEnvironment (world_of None None (Some api_down)) (Str ''pr-42'') ''acme'' =
       Some api_down
   \<and> message api_down = ''connect ECONNREFUSED''
   \<and> snd (messageConsumer (world_of None None (Some api_down)) task_acme_42) = Inl new_Error
   \<and> message new_Error = []"
proof -
  have p: "projectName task_acme_42 = ''acme''"
    by (simp add: task_acme_42_def)
  have g1: "projectsGet (world_of (Some forbidden) None None) oapi_example (Str ''acme-pr-42'') =
              Some forbidden"
    by (simp add: world_of_def)
  have c1: "code forbidden \<noteq> Some 404"
    by (simp add: forbidden_def)
  have m1: "message forbidden = ''Forbidden''"
    by (simp add: forbidden_def)
  have g2: "projectsGet (world_of None (Some forbidden) None) oapi_example (Str ''acme-pr-42'') =
              None"
    by (simp add: world_of_def)
  have d2: "projectsDelete (world_of None (Some forbidden) None) oapi_example
              (Str ''acme-pr-42'') = Some forbidden"
    by (simp add: world_of_def)
  have g3: "projectsGet (world_of None None (Some api_down)) oapi_example (Str ''acme-pr-42'') =
              None"
    by (simp add: world_of_def)
  have d3: "projectsDelete (world_of None None (Some api_down)) oapi_example
              (Str ''acme-pr-42'') = None"
    by (simp add: world_of_def)
  have r3: "deleteEnvironment (world_of None None (Some api_down)) (Str ''pr-42'') ''acme'' =
              Some api_down"
    by (simp add: world_of_def)
  have m3: "message api_down = ''connect ECONNREFUSED''"
    by (simp add: api_down_def)
  have i1: "getOpenShiftInfoForProject (world_of (Some forbidden) None None)
              (projectName task_acme_42) = Inr (Some info_example)"
    by (rule info_world_of)
  have i2: "getOpenShiftInfoForProject (world_of None (Some forbidden) None)
              (projectName task_acme_42) = Inr (Some info_example)"
    by (rule info_world_of)
  have i3: "getOpenShiftInfoForProject (world_of None None (Some api_down))
              (projectName task_acme_42) = Inr (Some info_example)"
    by (rule info_world_of)
  have a: "snd (messageConsumer (world_of (Some forbidden) None None) task_acme_42) =
             Inl new_Error \<and> message new_Error = []"
    using failure_replaced_by_new_Error [OF i1 names_acme_42] g1 c1
    by simp
  have b: "snd (messageConsumer (world_of None (Some forbidden) None) task_acme_42) =
             Inl new_Error"
    using failure_replaced_by_new_Error [OF i2 names_acme_42] g2 d2
    by simp
  have c: "snd (messageConsumer (world_of None None (Some api_down)) task_acme_42) =
             Inl new_Error"
    using failure_replaced_by_new_Error [OF i3 names_acme_42] g3 d3 r3 p
    by simp
  from a b c g1 c1 m1 d2 r3 m3 show ?thesis by simp
qed

end
